theory Spec2Isabelle
  imports Main "HOL-Library.Sublist"
begin

section \<open>JavaScript values seen by the execution panel\<close>

text \<open>
  The panel (\<^verbatim>\<open>ExecutionPanel\<close>, the second component of
  \<^verbatim>\<open>src/frontend/components/WorkflowDesigner.tsx\<close>) handles whatever
  \<^verbatim>\<open>JSON.parse\<close> returns, so the values are untyped JavaScript values. A number is
  kept by the two things the panel can observe of it: whether it is zero (its truthiness)
  and the text that string conversion gives.
\<close>

datatype number = Number (is_zero: bool) (digits: string)

datatype jsval =
    Undefined
  | JNull
  | JBool bool
  | JNum number
  | JStr string
  | JArr "jsval list"
  | JObj "(string \<times> jsval) list"

datatype exn = SyntaxError | TypeError | InvalidStateError

text \<open>The test of \<^verbatim>\<open>if (v)\<close>.\<close>

fun truthy :: "jsval \<Rightarrow> bool" where
  "truthy Undefined = False"
| "truthy JNull = False"
| "truthy (JBool b) = b"
| "truthy (JNum n) = (\<not> is_zero n)"
| "truthy (JStr s) = (s \<noteq> [])"
| "truthy (JArr xs) = True"
| "truthy (JObj kvs) = True"

fun join_comma :: "string list \<Rightarrow> string" where
  "join_comma [] = []"
| "join_comma [s] = s"
| "join_comma (s # t # ts) = s @ '','' @ join_comma (t # ts)"

text \<open>
  String conversion, as the template literal of the error branch performs it. A parsed
  object has no callable property of its own: with an own \<^verbatim>\<open>toString\<close> key
  neither that nor \<^verbatim>\<open>valueOf\<close> yields a primitive and the conversion throws a
  TypeError; without one the inherited method gives \<^verbatim>\<open>[object Object]\<close>. An
  array joins the conversions of its elements, left to right, the empty text standing
  for \<^verbatim>\<open>null\<close> and \<^verbatim>\<open>undefined\<close>.
\<close>

fun collect :: "(exn + string) list \<Rightarrow> exn + string list" where
  "collect [] = Inr []"
| "collect (Inl e # rs) = Inl e"
| "collect (Inr s # rs) = (case collect rs of Inl e \<Rightarrow> Inl e | Inr ss \<Rightarrow> Inr (s # ss))"

fun ToString :: "jsval \<Rightarrow> exn + string" where
  "ToString Undefined = Inr ''undefined''"
| "ToString JNull = Inr ''null''"
| "ToString (JBool b) = Inr (if b then ''true'' else ''false'')"
| "ToString (JNum n) = Inr (digits n)"
| "ToString (JStr s) = Inr s"
| "ToString (JArr xs) =
     (case collect (map (\<lambda>x. if x = Undefined \<or> x = JNull then Inr [] else ToString x) xs) of
        Inl e \<Rightarrow> Inl e
      | Inr ss \<Rightarrow> Inr (join_comma ss))"
| "ToString (JObj kvs) =
     (case map_of kvs ''toString'' of
        None \<Rightarrow> Inr ''[object Object]''
      | Some v \<Rightarrow> Inl TypeError)"

text \<open>
  Reading a property \<^verbatim>\<open>v.k\<close>, for the keys the panel reads (\<^verbatim>\<open>type\<close>,
  \<^verbatim>\<open>message\<close>, \<^verbatim>\<open>result\<close>): a TypeError on \<^verbatim>\<open>null\<close> and
  \<^verbatim>\<open>undefined\<close>, the own property of an object, \<^verbatim>\<open>undefined\<close> otherwise.
\<close>

fun get_prop :: "jsval \<Rightarrow> string \<Rightarrow> exn + jsval" where
  "get_prop Undefined k = Inl TypeError"
| "get_prop JNull k = Inl TypeError"
| "get_prop (JObj kvs) k = Inr (case map_of kvs k of None \<Rightarrow> Undefined | Some v \<Rightarrow> v)"
| "get_prop v k = Inr Undefined"

text \<open>
  \<^verbatim>\<open>JSON.parse\<close> belongs to the runtime. The text payload of a frame is represented
  by what \<^verbatim>\<open>JSON.parse\<close> makes of it: a SyntaxError, or the parsed value.
\<close>

datatype payload = Malformed | Json jsval

fun JSON_parse :: "payload \<Rightarrow> exn + jsval" where
  "JSON_parse Malformed = Inl SyntaxError"
| "JSON_parse (Json v) = Inr v"

section \<open>The panel's state and its sockets\<close>

datatype readyState = CONNECTING | OPEN | CLOSING | CLOSED

text \<open>
  A \<^verbatim>\<open>WebSocket\<close> object: its ready state, and the workflow id its URL
  \<^verbatim>\<open>.../ws/workflows/${selectedWorkflowId}/run\<close> names.
\<close>

record socket =
  readyState :: readyState
  workflow :: int

text \<open>
  The three \<^verbatim>\<open>useState\<close> cells, the two \<^verbatim>\<open>useRef\<close> cells, and the
  environment the handlers act on: every socket constructed so far (a socket is named by
  its position in \<open>sockets\<close>), the frames written with \<^verbatim>\<open>ws.send\<close> (the socket and
  the object given to \<^verbatim>\<open>JSON.stringify\<close>), and the alerts shown.
\<close>

record panel =
  isWorkflowRunning :: bool
  workflowResults :: "jsval list"
  currentStatus :: jsval
  lastStepResultRef :: jsval
  wsRef :: "nat option"
  sockets :: "socket list"
  sent :: "(nat \<times> jsval) list"
  alerts :: "string list"

definition initial :: panel where
  "initial = \<lparr>isWorkflowRunning = False, workflowResults = [], currentStatus = JStr [],
     lastStepResultRef = JStr [], wsRef = None, sockets = [], sent = [], alerts = []\<rparr>"

definition state_of :: "panel \<Rightarrow> nat \<Rightarrow> readyState option" where
  "state_of w c = (if c < length (sockets w) then Some (readyState (sockets w ! c)) else None)"

definition set_state :: "nat \<Rightarrow> readyState \<Rightarrow> panel \<Rightarrow> panel" where
  "set_state c st w =
     (if c < length (sockets w)
      then w\<lparr>sockets := (sockets w)[c := (sockets w ! c)\<lparr>readyState := st\<rparr>]\<rparr>
      else w)"

text \<open>
  \<^verbatim>\<open>ws.send\<close>: throws on a socket that is still connecting, writes the frame on an
  open one, and discards it on a closing or closed one.
\<close>

definition ws_send :: "nat \<Rightarrow> jsval \<Rightarrow> panel \<Rightarrow> exn + panel" where
  "ws_send ws v w =
     (case state_of w ws of
        Some CONNECTING \<Rightarrow> Inl InvalidStateError
      | Some OPEN \<Rightarrow> Inr (w\<lparr>sent := sent w @ [(ws, v)]\<rparr>)
      | _ \<Rightarrow> Inr w)"

definition stepInput :: "jsval \<Rightarrow> jsval" where
  "stepInput content = JObj [(''type'', JStr ''stepInput''), (''content'', content)]"

section \<open>The handlers of \<^verbatim>\<open>handleRunWorkflow\<close>\<close>

definition onopen :: "panel \<Rightarrow> panel" where
  "onopen w = w\<lparr>currentStatus := JStr ''Connection established. Starting workflow...''\<rparr>"

text \<open>
  \<^verbatim>\<open>ws.onmessage\<close>, for the socket \<open>ws\<close> the handler closes over. Nothing catches
  what \<^verbatim>\<open>JSON.parse\<close>, the first property read, the template literal or
  \<^verbatim>\<open>ws.send\<close> throws; each of them throws before the branch writes any state.
\<close>

definition onmessage :: "nat \<Rightarrow> payload \<Rightarrow> panel \<Rightarrow> exn + panel" where
  "onmessage ws event_data w =
     (case JSON_parse event_data of
        Inl e \<Rightarrow> Inl e
      | Inr data \<Rightarrow>
     (case get_prop data ''type'' of
        Inl e \<Rightarrow> Inl e
      | Inr ty \<Rightarrow>
          if ty = JStr ''status'' then
            (case get_prop data ''message'' of
               Inl e \<Rightarrow> Inl e
             | Inr m \<Rightarrow> Inr (w\<lparr>currentStatus := m\<rparr>))
          else if ty = JStr ''result'' then
            (case get_prop data ''result'' of
               Inl e \<Rightarrow> Inl e
             | Inr r \<Rightarrow>
                 Inr (w\<lparr>lastStepResultRef := r,
                        workflowResults := workflowResults w @ [data]\<rparr>))
          else if ty = JStr ''nextStep'' then
            (if truthy (lastStepResultRef w)
             then ws_send ws (stepInput (lastStepResultRef w)) w
             else Inr w)
          else if ty = JStr ''error'' then
            (case get_prop data ''message'' of
               Inl e \<Rightarrow> Inl e
             | Inr m \<Rightarrow>
                 (case ToString m of
                    Inl e \<Rightarrow> Inl e
                  | Inr s \<Rightarrow>
                      Inr (w\<lparr>currentStatus := JStr (''Error: '' @ s),
                             isWorkflowRunning := False\<rparr>)))
          else Inr w))"

definition onclose :: "panel \<Rightarrow> panel" where
  "onclose w = w\<lparr>currentStatus := JStr ''Workflow finished. Connection closed.'',
                 isWorkflowRunning := False, wsRef := None\<rparr>"

definition onerror :: "panel \<Rightarrow> panel" where
  "onerror w =
     w\<lparr>currentStatus := JStr ''Connection error. Please check if the backend is accessible.'',
       isWorkflowRunning := False, wsRef := None\<rparr>"

text \<open>\<^verbatim>\<open>!selectedWorkflowId\<close> holds of \<^verbatim>\<open>null\<close> and of \<^verbatim>\<open>0\<close>.\<close>

fun truthy_id :: "int option \<Rightarrow> bool" where
  "truthy_id None = False"
| "truthy_id (Some n) = (n \<noteq> 0)"

fun handleRunWorkflow :: "int option \<Rightarrow> panel \<Rightarrow> panel" where
  "handleRunWorkflow None w = w\<lparr>alerts := alerts w @ [''Please select a workflow to run.'']\<rparr>"
| "handleRunWorkflow (Some selectedWorkflowId) w =
     (if selectedWorkflowId = 0
      then w\<lparr>alerts := alerts w @ [''Please select a workflow to run.'']\<rparr>
      else w\<lparr>isWorkflowRunning := True,
             workflowResults := [],
             currentStatus := JStr ''Connecting to workflow engine...'',
             lastStepResultRef := JStr [],
             sockets := sockets w @ [\<lparr>readyState = CONNECTING, workflow = selectedWorkflowId\<rparr>],
             wsRef := Some (length (sockets w))\<rparr>)"

text \<open>The \<^verbatim>\<open>beforeunload\<close> listener closes the socket \<^verbatim>\<open>wsRef\<close> holds, if open.\<close>

definition beforeunload :: "panel \<Rightarrow> panel" where
  "beforeunload w =
     (case wsRef w of
        None \<Rightarrow> w
      | Some c \<Rightarrow> if state_of w c = Some OPEN then set_state c CLOSING w else w)"

text \<open>The run button's \<^verbatim>\<open>disabled\<close> attribute.\<close>

definition disabled :: "int option \<Rightarrow> panel \<Rightarrow> bool" where
  "disabled selectedWorkflowId w \<longleftrightarrow> \<not> truthy_id selectedWorkflowId \<or> isWorkflowRunning w"

section \<open>Events\<close>

text \<open>
  What the browser delivers to the panel, one task at a time: a click on the run button
  (with the \<^verbatim>\<open>selectedWorkflowId\<close> prop of that moment), and for each socket its
  open, message and close events. The WebSocket interface fixes when they fire: open on a
  connecting socket; message on an open socket only; the closing task once, on a socket
  that is not yet closed, setting the ready state to closed before it fires \<^verbatim>\<open>close\<close>,
  preceded in the same task by \<^verbatim>\<open>error\<close> when the connection failed. A disabled
  button fires no click. An exception that leaves a handler is reported by the browser and
  the page goes on.
\<close>

datatype event =
    Click "int option"
  | Opened nat
  | Message nat payload
  | Closed nat
  | Failed nat
  | BeforeUnload

definition closable :: "panel \<Rightarrow> nat \<Rightarrow> bool" where
  "closable w c \<longleftrightarrow> state_of w c \<noteq> None \<and> state_of w c \<noteq> Some CLOSED"

fun deliver :: "event \<Rightarrow> panel \<Rightarrow> panel" where
  "deliver (Click sel) w = (if disabled sel w then w else handleRunWorkflow sel w)"
| "deliver (Opened c) w =
     (if state_of w c = Some CONNECTING then onopen (set_state c OPEN w) else w)"
| "deliver (Message c p) w =
     (if state_of w c = Some OPEN
      then (case onmessage c p w of Inl e \<Rightarrow> w | Inr w' \<Rightarrow> w')
      else w)"
| "deliver (Closed c) w =
     (if closable w c then onclose (set_state c CLOSED w) else w)"
| "deliver (Failed c) w =
     (if closable w c then onclose (onerror (set_state c CLOSED w)) else w)"
| "deliver BeforeUnload w = beforeunload w"

definition deliver_all :: "event list \<Rightarrow> panel \<Rightarrow> panel" where
  "deliver_all es w = fold deliver es w"

section \<open>Frames and events named in the properties\<close>

text \<open>
  The engine that writes the frames is outside the sources. The frames of its protocol,
  with the fields the panel reads and shows, serve as concrete inputs.
\<close>

definition status_frame :: "string \<Rightarrow> jsval" where
  "status_frame m = JObj [(''type'', JStr ''status''), (''message'', JStr m)]"

definition result_frame :: "number \<Rightarrow> string \<Rightarrow> string \<Rightarrow> jsval" where
  "result_frame n p r =
     JObj [(''type'', JStr ''result''), (''step'', JNum n), (''prompt'', JStr p), (''result'', JStr r)]"

definition nextStep_frame :: jsval where
  "nextStep_frame = JObj [(''type'', JStr ''nextStep'')]"

definition error_frame :: "string \<Rightarrow> jsval" where
  "error_frame m = JObj [(''type'', JStr ''error''), (''message'', JStr m)]"

fun is_click :: "event \<Rightarrow> bool" where
  "is_click (Click sel) = True"
| "is_click e = False"

fun carries :: "string \<Rightarrow> event \<Rightarrow> bool" where
  "carries t (Message c (Json d)) = (get_prop d ''type'' = Inr (JStr t))"
| "carries t e = False"

fun result_event :: "payload \<Rightarrow> jsval option" where
  "result_event Malformed = None"
| "result_event (Json d) = (if get_prop d ''type'' = Inr (JStr ''result'') then Some d else None)"

text \<open>A frame for a socket that has closed: the browser does not deliver it.\<close>

fun on_closed_channel :: "panel \<Rightarrow> event \<Rightarrow> bool" where
  "on_closed_channel w (Message c p) = (state_of w c = Some CLOSED)"
| "on_closed_channel w e = False"

section \<open>What each event can change\<close>

lemmas frame_defs = status_frame_def result_frame_def nextStep_frame_def error_frame_def
lemmas panel_defs = onmessage_def onopen_def onclose_def onerror_def ws_send_def state_of_def
  set_state_def disabled_def closable_def beforeunload_def deliver_all_def initial_def

lemma get_prop_twice:
  "get_prop d k = Inr v \<Longrightarrow> \<exists>v'. get_prop d k' = Inr v'"
  by (cases d) auto

lemma onmessage_sockets:
  "onmessage c p w = Inr w' \<Longrightarrow> sockets w' = sockets w"
  by (auto simp: onmessage_def ws_send_def split: sum.splits if_splits option.splits readyState.splits)

lemma deliver_Message_sockets:
  "sockets (deliver (Message c p) w) = sockets w"
  by (auto simp: onmessage_sockets split: sum.splits)

lemma deliver_Message_state_of:
  "state_of (deliver (Message c p) w) c' = state_of w c'"
  using deliver_Message_sockets [of c p w] by (simp add: state_of_def)

lemma deliver_all_Nil: "deliver_all [] w = w"
  by (simp add: deliver_all_def)

lemma deliver_all_Cons: "deliver_all (e # es) w = deliver_all es (deliver e w)"
  by (simp add: deliver_all_def)

lemma deliver_all_append: "deliver_all (xs @ ys) w = deliver_all ys (deliver_all xs w)"
  by (simp add: deliver_all_def)

lemma onmessage_result:
  assumes "get_prop d ''type'' = Inr (JStr ''result'')"
  shows "\<exists>r. get_prop d ''result'' = Inr r \<and>
    onmessage c (Json d) w = Inr (w\<lparr>lastStepResultRef := r, workflowResults := workflowResults w @ [d]\<rparr>)"
proof -
  from get_prop_twice [OF assms] obtain r where "get_prop d ''result'' = Inr r" by blast
  with assms show ?thesis by (simp add: onmessage_def)
qed

lemma onmessage_not_result_results:
  assumes "result_event p = None" "onmessage c p w = Inr w'"
  shows "workflowResults w' = workflowResults w \<and> lastStepResultRef w' = lastStepResultRef w"
  using assms
  by (cases p) (auto simp: onmessage_def ws_send_def split: sum.splits if_splits option.splits readyState.splits)

lemma deliver_keeps_results:
  assumes "\<not> is_click e" "\<not> carries ''result'' e"
  shows "workflowResults (deliver e w) = workflowResults w \<and>
         lastStepResultRef (deliver e w) = lastStepResultRef w"
proof (cases e)
  case (Message c p)
  with assms have "result_event p = None" by (cases p) auto
  with Message show ?thesis
    by (auto split: sum.splits dest: onmessage_not_result_results)
qed (use assms in \<open>auto simp: onopen_def onclose_def onerror_def set_state_def beforeunload_def split: option.splits\<close>)

lemma deliver_keeps_sent:
  assumes "\<not> carries ''nextStep'' e"
  shows "sent (deliver e w) = sent w"
proof (cases e)
  case (Message c p)
  with assms show ?thesis
    by (cases p) (auto simp: onmessage_def split: sum.splits if_splits)
next
  case (Click sel)
  then show ?thesis by (cases sel) auto
qed (auto simp: onopen_def onclose_def onerror_def set_state_def beforeunload_def split: option.splits)

lemma deliver_silent:
  assumes "\<not> truthy (lastStepResultRef w)"
  shows "sent (deliver e w) = sent w"
proof (cases e)
  case (Message c p)
  with assms show ?thesis
    by (cases p) (auto simp: onmessage_def split: sum.splits if_splits)
next
  case (Click sel)
  then show ?thesis by (cases sel) auto
qed (auto simp: onopen_def onclose_def onerror_def set_state_def beforeunload_def split: option.splits)

lemma deliver_all_keeps:
  assumes "\<forall>e\<in>set es. \<not> is_click e \<and> \<not> carries ''result'' e"
  shows "workflowResults (deliver_all es w) = workflowResults w \<and>
         lastStepResultRef (deliver_all es w) = lastStepResultRef w"
  using assms
  by (induction es arbitrary: w) (simp_all add: deliver_all_Nil deliver_all_Cons deliver_keeps_results)

lemma deliver_all_keeps_sent:
  assumes "\<forall>e\<in>set es. \<not> carries ''nextStep'' e"
  shows "sent (deliver_all es w) = sent w"
  using assms
  by (induction es arbitrary: w) (simp_all add: deliver_all_Nil deliver_all_Cons deliver_keeps_sent)

lemma deliver_all_silent:
  assumes "\<not> truthy (lastStepResultRef w)" "\<forall>e\<in>set es. \<not> is_click e \<and> \<not> carries ''result'' e"
  shows "sent (deliver_all es w) = sent w"
  using assms
proof (induction es arbitrary: w)
  case Nil
  then show ?case by (simp add: deliver_all_Nil)
next
  case (Cons e es)
  have "lastStepResultRef (deliver e w) = lastStepResultRef w"
    using Cons.prems(2) by (simp add: deliver_keeps_results)
  with Cons show ?case
    by (simp add: deliver_all_Cons deliver_silent)
qed

lemma deliver_results_prefix:
  assumes "\<not> is_click e"
  shows "prefix (workflowResults w) (workflowResults (deliver e w))"
proof (cases "carries ''result'' e")
  case True
  then obtain c d where e: "e = Message c (Json d)" and ty: "get_prop d ''type'' = Inr (JStr ''result'')"
  proof (cases e)
    case (Message c p)
    with True show ?thesis by (cases p) (auto intro: that)
  qed auto
  from onmessage_result [OF ty, of c w] show ?thesis
    by (auto simp: e)
next
  case False
  with assms show ?thesis by (simp add: deliver_keeps_results)
qed

lemma deliver_all_results_prefix:
  assumes "\<forall>e\<in>set es. \<not> is_click e"
  shows "prefix (workflowResults w) (workflowResults (deliver_all es w))"
  using assms
proof (induction es arbitrary: w)
  case Nil
  then show ?case by (simp add: deliver_all_Nil)
next
  case (Cons e es)
  then have "prefix (workflowResults w) (workflowResults (deliver e w))"
    and "prefix (workflowResults (deliver e w)) (workflowResults (deliver_all es (deliver e w)))"
    by (simp_all add: deliver_results_prefix)
  then show ?case
    by (metis deliver_all_Cons prefix_order.order_trans)
qed

lemma deliver_messages_results:
  assumes "state_of w c = Some OPEN"
  shows "workflowResults (deliver_all (map (Message c) ps) w) =
         workflowResults w @ List.map_filter result_event ps"
  using assms
proof (induction ps arbitrary: w)
  case Nil
  then show ?case by (simp add: deliver_all_Nil map_filter_simps)
next
  case (Cons p ps)
  have st: "state_of (deliver (Message c p) w) c = Some OPEN"
    unfolding deliver_Message_state_of by (rule Cons.prems)
  show ?case
  proof (cases "result_event p")
    case None
    then have "\<not> carries ''result'' (Message c p)" by (cases p) (auto split: if_splits)
    then have "workflowResults (deliver (Message c p) w) = workflowResults w"
      by (simp add: deliver_keeps_results del: deliver.simps)
    with Cons.IH [OF st] None show ?thesis
      by (simp add: deliver_all_Cons map_filter_simps)
  next
    case (Some d)
    then have p: "p = Json d" and ty: "get_prop d ''type'' = Inr (JStr ''result'')"
      by (cases p; auto split: if_splits)+
    from onmessage_result [OF ty, of c w] Cons.prems
    have "workflowResults (deliver (Message c p) w) = workflowResults w @ [d]"
      by (auto simp: p)
    with Cons.IH [OF st] Some show ?thesis
      by (simp add: deliver_all_Cons map_filter_simps)
  qed
qed

lemma closed_stays_closed:
  assumes "state_of w c = Some CLOSED"
  shows "state_of (deliver e w) c = Some CLOSED"
proof (cases e)
  case (Click sel)
  with assms show ?thesis
    by (cases sel) (auto simp: state_of_def nth_append split: if_splits)
next
  case (Message c' p)
  with assms show ?thesis
    by (simp only: deliver_Message_state_of)
next
  case (Opened c')
  with assms show ?thesis
    by (auto simp: state_of_def set_state_def onopen_def nth_list_update split: if_splits)
next
  case (Closed c')
  with assms show ?thesis
    by (auto simp: state_of_def set_state_def onclose_def closable_def nth_list_update split: if_splits)
next
  case (Failed c')
  with assms show ?thesis
    by (auto simp: state_of_def set_state_def onclose_def onerror_def closable_def nth_list_update
        split: if_splits)
next
  case BeforeUnload
  with assms show ?thesis
    by (auto simp: state_of_def set_state_def beforeunload_def nth_list_update
        split: if_splits option.splits)
qed

lemma on_closed_channel_stays:
  assumes "on_closed_channel w e'"
  shows "on_closed_channel (deliver e w) e'"
  using assms by (cases e') (simp_all add: closed_stays_closed del: deliver.simps)

lemma deliver_on_closed_channel:
  assumes "on_closed_channel w e"
  shows "deliver e w = w"
  using assms by (cases e) simp_all

lemma deliver_all_keeps_unless_delivered:
  assumes "\<forall>e\<in>set es. \<not> is_click e \<and> (carries ''result'' e \<longrightarrow> on_closed_channel w e)"
  shows "workflowResults (deliver_all es w) = workflowResults w \<and>
         lastStepResultRef (deliver_all es w) = lastStepResultRef w"
  using assms
proof (induction es arbitrary: w)
  case Nil
  then show ?case by (simp add: deliver_all_Nil)
next
  case (Cons e es)
  have step: "workflowResults (deliver e w) = workflowResults w \<and>
              lastStepResultRef (deliver e w) = lastStepResultRef w"
  proof (cases "carries ''result'' e")
    case True
    with Cons.prems have "on_closed_channel w e" by simp
    then show ?thesis by (simp only: deliver_on_closed_channel)
  next
    case False
    with Cons.prems show ?thesis by (simp add: deliver_keeps_results del: deliver.simps)
  qed
  have "\<forall>e'\<in>set es. \<not> is_click e' \<and> (carries ''result'' e' \<longrightarrow> on_closed_channel (deliver e w) e')"
    using Cons.prems by (auto intro: on_closed_channel_stays simp del: deliver.simps)
  from Cons.IH [OF this] step show ?case
    by (simp only: deliver_all_Cons)
qed

lemma handleRunWorkflow_keeps_closed:
  assumes "on_closed_channel w e"
  shows "on_closed_channel (handleRunWorkflow sel w) e"
proof (cases e)
  case (Message c p)
  with assms have "state_of w c = Some CLOSED" by simp
  then have "state_of (handleRunWorkflow sel w) c = Some CLOSED"
    by (cases sel) (auto simp: state_of_def nth_append split: if_splits)
  with Message show ?thesis by simp
qed (use assms in simp_all)

section \<open>The properties\<close>

subsection \<open>C1: chaining\<close>

text \<open>
  The claim as written fails when the result value is the empty string: the panel is
  running, the socket is open, the engine sends a result whose \<^verbatim>\<open>result\<close> is
  \<^verbatim>\<open>""\<close> and then \<^verbatim>\<open>nextStep\<close>, and nothing is sent.
\<close>

theorem chaining_empty_result_counterexample:
  "state_of (deliver_all [Click (Some 7), Opened 0,
       Message 0 (Json (result_frame (Number False ''1'') ''Write a title'' ''''))] initial) 0 = Some OPEN
   \<and> isWorkflowRunning (deliver_all [Click (Some 7), Opened 0,
       Message 0 (Json (result_frame (Number False ''1'') ''Write a title'' ''''))] initial)
   \<and> sent (deliver_all [Click (Some 7), Opened 0,
       Message 0 (Json (result_frame (Number False ''1'') ''Write a title'' '''')),
       Message 0 (Json nextStep_frame)] initial) = []"
  by (simp add: panel_defs frame_defs)

text \<open>
  C1, amended: on an open channel, after a result frame whose result value is a non-empty
  string \<open>R\<close>, the next \<^verbatim>\<open>nextStep\<close> frame (with any events in between
  that neither start a run nor carry a result or a \<^verbatim>\<open>nextStep\<close>) causes exactly
  one outbound command, \<^verbatim>\<open>stepInput\<close> with content \<open>R\<close> verbatim, written on
  the socket the \<^verbatim>\<open>nextStep\<close> arrived on.
\<close>

theorem chaining_forwards_nonempty_result:
  assumes "state_of w c = Some OPEN"
    and "get_prop d ''type'' = Inr (JStr ''result'')"
    and "get_prop d ''result'' = Inr (JStr R)"
    and "R \<noteq> []"
    and "\<forall>e\<in>set es. \<not> is_click e \<and> \<not> carries ''result'' e \<and> \<not> carries ''nextStep'' e"
    and "state_of (deliver_all (Message c (Json d) # es) w) c' = Some OPEN"
    and "get_prop n ''type'' = Inr (JStr ''nextStep'')"
  shows "sent (deliver_all (Message c (Json d) # es @ [Message c' (Json n)]) w) =
           sent w @ [(c', stepInput (JStr R))]"
proof -
  let ?w1 = "deliver (Message c (Json d)) w"
  let ?w2 = "deliver_all es ?w1"
  have w1: "lastStepResultRef ?w1 = JStr R" "sent ?w1 = sent w"
    using assms(1-3) by (simp_all add: onmessage_def)
  have last2: "lastStepResultRef ?w2 = JStr R"
    using assms(5) w1(1) by (simp add: deliver_all_keeps)
  have sent2: "sent ?w2 = sent w"
    using assms(5) w1(2) by (simp add: deliver_all_keeps_sent)
  have st2: "state_of ?w2 c' = Some OPEN"
    using assms(6) by (simp only: deliver_all_Cons)
  have "onmessage c' (Json n) ?w2 = Inr (?w2\<lparr>sent := sent ?w2 @ [(c', stepInput (JStr R))]\<rparr>)"
    using assms(4,7) last2 st2 by (simp add: onmessage_def ws_send_def)
  then have "sent (deliver (Message c' (Json n)) ?w2) = sent ?w2 @ [(c', stepInput (JStr R))]"
    using st2 by simp
  then show ?thesis
    using sent2 by (simp only: deliver_all_Cons deliver_all_append deliver_all_Nil)
qed

theorem chaining_forwards_nonempty_result_witness:
  "sent (deliver_all
     (Message 0 (Json (result_frame (Number False ''1'') ''Write a title'' ''R1''))
       # [Message 0 (Json (status_frame ''working''))] @ [Message 0 (Json nextStep_frame)])
     (deliver_all [Click (Some 7), Opened 0] initial))
   = sent (deliver_all [Click (Some 7), Opened 0] initial) @ [(0, stepInput (JStr ''R1''))]
   \<and> sent (deliver_all [Click (Some 7), Opened 0,
        Message 0 (Json (result_frame (Number False ''1'') ''Write a title'' ''R1'')),
        Message 0 (Json (status_frame ''working'')),
        Message 0 (Json nextStep_frame)] initial)
     = [(0, JObj [(''type'', JStr ''stepInput''), (''content'', JStr ''R1'')])]"
proof -
  let ?w = "deliver_all [Click (Some 7), Opened 0] initial"
  let ?d = "result_frame (Number False ''1'') ''Write a title'' ''R1''"
  let ?es = "[Message 0 (Json (status_frame ''working''))]"
  have h1: "state_of ?w 0 = Some OPEN"
    by (simp add: panel_defs)
  have h2: "get_prop ?d ''type'' = Inr (JStr ''result'')"
    by (simp add: frame_defs)
  have h3: "get_prop ?d ''result'' = Inr (JStr ''R1'')"
    by (simp add: frame_defs)
  have h4: "''R1'' \<noteq> []"
    by simp
  have h5: "\<forall>e\<in>set ?es. \<not> is_click e \<and> \<not> carries ''result'' e \<and> \<not> carries ''nextStep'' e"
    by (simp add: frame_defs)
  have h6: "state_of (deliver_all (Message 0 (Json ?d) # ?es) ?w) 0 = Some OPEN"
    by (simp add: panel_defs frame_defs)
  have h7: "get_prop nextStep_frame ''type'' = Inr (JStr ''nextStep'')"
    by (simp add: frame_defs)
  have a: "sent (deliver_all (Message 0 (Json ?d) # ?es @ [Message 0 (Json nextStep_frame)]) ?w)
             = sent ?w @ [(0, stepInput (JStr ''R1''))]"
    by (rule chaining_forwards_nonempty_result [OF h1 h2 h3 h4 h5 h6 h7])
  have b: "sent (deliver_all [Click (Some 7), Opened 0,
        Message 0 (Json ?d), Message 0 (Json (status_frame ''working'')),
        Message 0 (Json nextStep_frame)] initial)
     = [(0, JObj [(''type'', JStr ''stepInput''), (''content'', JStr ''R1'')])]"
    by (simp add: panel_defs frame_defs stepInput_def)
  from a b show ?thesis by (rule conjI)
qed

subsection \<open>C2: an error frame, then the channel closes\<close>

text \<open>
  The claim as written fails twice. After \<^verbatim>\<open>error{"rate limited"}\<close> the status is
  \<^verbatim>\<open>Error: rate limited\<close>, but the close that follows replaces it. And a
  \<^verbatim>\<open>nextStep\<close> frame that arrives after the error frame, on the channel the error
  frame left open, is still answered.
\<close>

theorem error_then_close_counterexample:
  "currentStatus (deliver_all [Click (Some 7), Opened 0,
       Message 0 (Json (error_frame ''rate limited''))] initial) = JStr ''Error: rate limited''
   \<and> currentStatus (deliver_all [Click (Some 7), Opened 0,
       Message 0 (Json (error_frame ''rate limited'')), Closed 0] initial)
     = JStr ''Workflow finished. Connection closed.''
   \<and> sent (deliver_all [Click (Some 7), Opened 0,
       Message 0 (Json (result_frame (Number False ''1'') ''Write a title'' ''R1'')),
       Message 0 (Json (error_frame ''rate limited'')),
       Message 0 (Json nextStep_frame)] initial) = [(0, stepInput (JStr ''R1''))]"
  by (simp add: panel_defs frame_defs)

text \<open>
  C2, amended: an error frame with a string message \<open>m\<close>, delivered on an open channel,
  sets the status to \<^verbatim>\<open>Error: \<close> followed by \<open>m\<close> and clears the running flag; it
  sends no command, appends no result and leaves the channel open. When the channel then
  closes, the close sends no command, appends no result and leaves the running flag
  cleared, and it sets the status to \<^verbatim>\<open>Workflow finished. Connection closed.\<close>
\<close>

theorem error_sets_status_until_close:
  assumes "state_of w c = Some OPEN"
    and "get_prop d ''type'' = Inr (JStr ''error'')"
    and "get_prop d ''message'' = Inr (JStr m)"
  shows "currentStatus (deliver (Message c (Json d)) w) = JStr (''Error: '' @ m)
       \<and> \<not> isWorkflowRunning (deliver (Message c (Json d)) w)
       \<and> sent (deliver (Message c (Json d)) w) = sent w
       \<and> workflowResults (deliver (Message c (Json d)) w) = workflowResults w
       \<and> state_of (deliver (Message c (Json d)) w) c = Some OPEN
       \<and> currentStatus (deliver_all [Message c (Json d), Closed c] w)
           = JStr ''Workflow finished. Connection closed.''
       \<and> \<not> isWorkflowRunning (deliver_all [Message c (Json d), Closed c] w)
       \<and> sent (deliver_all [Message c (Json d), Closed c] w) = sent w
       \<and> workflowResults (deliver_all [Message c (Json d), Closed c] w) = workflowResults w"
proof -
  let ?w1 = "deliver (Message c (Json d)) w"
  have w1: "?w1 = w\<lparr>currentStatus := JStr (''Error: '' @ m), isWorkflowRunning := False\<rparr>"
    using assms by (simp add: onmessage_def)
  have st: "state_of ?w1 c = Some OPEN"
    unfolding deliver_Message_state_of by (rule assms(1))
  then have cl: "deliver (Closed c) ?w1 = onclose (set_state c CLOSED ?w1)"
    by (simp add: closable_def del: deliver.simps(3))
  have "currentStatus (deliver (Closed c) ?w1) = JStr ''Workflow finished. Connection closed.''"
    and "\<not> isWorkflowRunning (deliver (Closed c) ?w1)"
    and "sent (deliver (Closed c) ?w1) = sent w"
    and "workflowResults (deliver (Closed c) ?w1) = workflowResults w"
    unfolding cl by (simp_all add: w1 onclose_def set_state_def del: deliver.simps)
  moreover have "currentStatus ?w1 = JStr (''Error: '' @ m)" "\<not> isWorkflowRunning ?w1"
    "sent ?w1 = sent w" "workflowResults ?w1 = workflowResults w"
    unfolding w1 by simp_all
  ultimately show ?thesis
    using st by (simp only: deliver_all_Cons deliver_all_Nil simp_thms)
qed

theorem error_sets_status_until_close_witness:
  "currentStatus (deliver (Message 0 (Json (error_frame ''rate limited'')))
       (deliver_all [Click (Some 7), Opened 0] initial)) = JStr ''Error: rate limited''
   \<and> \<not> isWorkflowRunning (deliver (Message 0 (Json (error_frame ''rate limited'')))
       (deliver_all [Click (Some 7), Opened 0] initial))
   \<and> currentStatus (deliver_all [Message 0 (Json (error_frame ''rate limited'')), Closed 0]
       (deliver_all [Click (Some 7), Opened 0] initial))
       = JStr ''Workflow finished. Connection closed.''
   \<and> sent (deliver_all [Message 0 (Json (error_frame ''rate limited'')), Closed 0]
       (deliver_all [Click (Some 7), Opened 0] initial)) = []"
proof -
  let ?w = "deliver_all [Click (Some 7), Opened 0] initial"
  let ?d = "error_frame ''rate limited''"
  have h1: "state_of ?w 0 = Some OPEN"
    by (simp add: panel_defs)
  have h2: "get_prop ?d ''type'' = Inr (JStr ''error'')"
    by (simp add: frame_defs)
  have h3: "get_prop ?d ''message'' = Inr (JStr ''rate limited'')"
    by (simp add: frame_defs)
  have s: "sent ?w = []"
    by (simp add: panel_defs)
  from error_sets_status_until_close [OF h1 h2 h3] s show ?thesis
    by simp
qed

subsection \<open>C3: a frame that is not JSON\<close>

text \<open>
  The claim as written fails: on a frame that \<^verbatim>\<open>JSON.parse\<close> rejects the message
  handler throws, no error status is set, and the panel is still running with the status
  it had.
\<close>

theorem malformed_frame_counterexample:
  "onmessage 0 Malformed (deliver_all [Click (Some 7), Opened 0] initial) = Inl SyntaxError
   \<and> isWorkflowRunning (deliver_all [Click (Some 7), Opened 0, Message 0 Malformed] initial)
   \<and> currentStatus (deliver_all [Click (Some 7), Opened 0, Message 0 Malformed] initial)
       = JStr ''Connection established. Starting workflow...''"
  by (simp add: panel_defs)

text \<open>
  C3, amended: for every frame whose text fails to parse as JSON, the message handler
  throws the SyntaxError of \<^verbatim>\<open>JSON.parse\<close> to its caller, and the panel's state
  (running flag, status, results, last step result, sockets, sent commands) is exactly
  what it was before the frame.
\<close>

theorem malformed_frame_throws:
  "onmessage c Malformed w = Inl SyntaxError \<and> deliver (Message c Malformed) w = w"
  by (simp add: onmessage_def)

theorem malformed_frame_throws_witness:
  "onmessage 0 Malformed (deliver_all [Click (Some 7), Opened 0] initial) = Inl SyntaxError
   \<and> deliver (Message 0 Malformed) (deliver_all [Click (Some 7), Opened 0] initial)
       = deliver_all [Click (Some 7), Opened 0] initial
   \<and> state_of (deliver_all [Click (Some 7), Opened 0] initial) 0 = Some OPEN"
proof -
  have st: "state_of (deliver_all [Click (Some 7), Opened 0] initial) 0 = Some OPEN"
    by (simp add: panel_defs)
  from malformed_frame_throws [of 0 "deliver_all [Click (Some 7), Opened 0] initial"] st
  show ?thesis by blast
qed

subsection \<open>C4: results after an error\<close>

text \<open>
  The claim as written fails: after an error frame the running flag is cleared and the
  status is the error's, and a result frame that then arrives on the same channel is
  appended to the results.
\<close>

theorem result_after_error_counterexample:
  "\<not> isWorkflowRunning (deliver_all [Click (Some 7), Opened 0,
       Message 0 (Json (error_frame ''rate limited''))] initial)
   \<and> currentStatus (deliver_all [Click (Some 7), Opened 0,
       Message 0 (Json (error_frame ''rate limited''))] initial) = JStr ''Error: rate limited''
   \<and> workflowResults (deliver_all [Click (Some 7), Opened 0,
       Message 0 (Json (error_frame ''rate limited''))] initial) = []
   \<and> workflowResults (deliver_all [Click (Some 7), Opened 0,
       Message 0 (Json (error_frame ''rate limited'')),
       Message 0 (Json (result_frame (Number False ''2'') ''Write a body'' ''Body text''))] initial)
     = [result_frame (Number False ''2'') ''Write a body'' ''Body text'']"
  by (simp add: panel_defs frame_defs)

text \<open>
  C4, amended: the results have no guard on the running flag. A result frame delivered on
  an open channel is appended at the end of the results whatever the running flag is; a
  frame for a channel that is not open is not delivered and changes nothing; and every
  event that neither starts a run nor carries a result leaves the results as they are.
\<close>

theorem results_change_only_by_result_frames:
  "(state_of w c = Some OPEN \<and> get_prop d ''type'' = Inr (JStr ''result'')
      \<longrightarrow> workflowResults (deliver (Message c (Json d)) w) = workflowResults w @ [d])
   \<and> (state_of w c \<noteq> Some OPEN \<longrightarrow> deliver (Message c p) w = w)
   \<and> (\<not> is_click e \<and> \<not> carries ''result'' e
      \<longrightarrow> workflowResults (deliver e w) = workflowResults w)"
proof (intro conjI impI)
  assume "state_of w c = Some OPEN \<and> get_prop d ''type'' = Inr (JStr ''result'')"
  with onmessage_result [of d c w]
  show "workflowResults (deliver (Message c (Json d)) w) = workflowResults w @ [d]"
    by auto
next
  assume "state_of w c \<noteq> Some OPEN"
  then show "deliver (Message c p) w = w" by simp
next
  assume "\<not> is_click e \<and> \<not> carries ''result'' e"
  then show "workflowResults (deliver e w) = workflowResults w"
    by (simp add: deliver_keeps_results)
qed

theorem results_change_only_by_result_frames_witness:
  "workflowResults (deliver (Message 0 (Json (result_frame (Number False ''2'') ''Write a body'' ''Body text'')))
       (deliver_all [Click (Some 7), Opened 0, Message 0 (Json (error_frame ''rate limited''))] initial))
     = workflowResults
         (deliver_all [Click (Some 7), Opened 0, Message 0 (Json (error_frame ''rate limited''))] initial)
       @ [result_frame (Number False ''2'') ''Write a body'' ''Body text'']
   \<and> deliver (Message 0 (Json (result_frame (Number False ''2'') ''Write a body'' ''Body text'')))
       (deliver_all [Click (Some 7), Opened 0, Closed 0] initial)
     = deliver_all [Click (Some 7), Opened 0, Closed 0] initial
   \<and> workflowResults (deliver (Closed 0)
       (deliver_all [Click (Some 7), Opened 0, Message 0 (Json (error_frame ''rate limited''))] initial))
     = workflowResults
         (deliver_all [Click (Some 7), Opened 0, Message 0 (Json (error_frame ''rate limited''))] initial)"
proof -
  let ?d = "result_frame (Number False ''2'') ''Write a body'' ''Body text''"
  let ?w = "deliver_all [Click (Some 7), Opened 0, Message 0 (Json (error_frame ''rate limited''))] initial"
  let ?v = "deliver_all [Click (Some 7), Opened 0, Closed 0] initial"
  have h1: "state_of ?w 0 = Some OPEN \<and> get_prop ?d ''type'' = Inr (JStr ''result'')"
    by (simp add: panel_defs frame_defs)
  have h2: "state_of ?v 0 \<noteq> Some OPEN"
    by (simp add: panel_defs)
  have h3: "\<not> is_click (Closed 0) \<and> \<not> carries ''result'' (Closed 0)"
    by simp
  from results_change_only_by_result_frames [of ?w 0 ?d "Json ?d" "Closed 0"] h1 h3
  have a: "workflowResults (deliver (Message 0 (Json ?d)) ?w) = workflowResults ?w @ [?d]"
    and c: "workflowResults (deliver (Closed 0) ?w) = workflowResults ?w"
    by blast+
  from results_change_only_by_result_frames [of ?v 0 ?d "Json ?d" "Closed 0"] h2
  have b: "deliver (Message 0 (Json ?d)) ?v = ?v"
    by blast
  from a b c show ?thesis by blast
qed

subsection \<open>C5: one channel per run\<close>




subsection \<open>C6: the results follow the arrival order\<close>

text \<open>
  C6: for every sequence of frames arriving on an open channel, the results afterwards
  are the results before followed by exactly the result frames of the sequence, in
  arrival order, each one kept whole and none dropped, merged or moved (so never sorted
  by step number). And whatever has happened before, over any events that start no run
  the results read earlier are a prefix of the results read at the end.
\<close>

theorem results_follow_arrival_order:
  assumes "state_of w c = Some OPEN" and "\<forall>e\<in>set ys. \<not> is_click e"
  shows "workflowResults (deliver_all (map (Message c) ps) w) =
           workflowResults w @ List.map_filter result_event ps
       \<and> prefix (workflowResults (deliver_all xs w)) (workflowResults (deliver_all (xs @ ys) w))"
  using assms
  by (simp add: deliver_messages_results deliver_all_append deliver_all_results_prefix)

theorem results_follow_arrival_order_witness:
  "state_of (deliver_all [Click (Some 7), Opened 0] initial) 0 = Some OPEN
   \<and> \<not> is_click (Message 0 (Json (result_frame (Number False ''1'') ''q'' ''b'')))
   \<and> workflowResults (deliver_all
        [Click (Some 7), Opened 0,
         Message 0 (Json (result_frame (Number False ''2'') ''p'' ''a'')),
         Message 0 (Json (status_frame ''busy'')),
         Message 0 Malformed,
         Message 0 (Json (result_frame (Number False ''1'') ''q'' ''b''))] initial)
     = [result_frame (Number False ''2'') ''p'' ''a'', result_frame (Number False ''1'') ''q'' ''b'']
   \<and> prefix
        (workflowResults (deliver_all
           [Click (Some 7), Opened 0,
            Message 0 (Json (result_frame (Number False ''2'') ''p'' ''a''))] initial))
        (workflowResults (deliver_all
           ([Click (Some 7), Opened 0,
             Message 0 (Json (result_frame (Number False ''2'') ''p'' ''a''))]
            @ [Message 0 (Json (result_frame (Number False ''1'') ''q'' ''b''))]) initial))"
proof -
  let ?w = "deliver_all [Click (Some 7), Opened 0] initial"
  let ?ys = "[Message 0 (Json (result_frame (Number False ''1'') ''q'' ''b''))]"
  have h1: "state_of ?w 0 = Some OPEN"
    by (simp add: panel_defs)
  have h2: "\<forall>e\<in>set ?ys. \<not> is_click e"
    by simp
  from results_follow_arrival_order [OF h1 h2,
      of "[Json (result_frame (Number False ''2'') ''p'' ''a''), Json (status_frame ''busy''),
           Malformed, Json (result_frame (Number False ''1'') ''q'' ''b'')]"
         "[Click (Some 7), Opened 0,
            Message 0 (Json (result_frame (Number False ''2'') ''p'' ''a''))]"]
  show ?thesis
    by (simp add: panel_defs frame_defs map_filter_simps)
qed

subsection \<open>C7: a nextStep before any result\<close>

text \<open>
  C7: after a run has started, and as long as no result frame has arrived (and no other
  run was started), a \<^verbatim>\<open>nextStep\<close> frame produces no outbound command: the handler
  returns normally and the panel's state is exactly what it was, so nothing has been sent
  since the run started.
\<close>

theorem nextStep_without_result_sends_nothing:
  assumes "truthy_id sel"
    and "\<forall>e\<in>set es. \<not> is_click e \<and> \<not> carries ''result'' e"
    and "get_prop n ''type'' = Inr (JStr ''nextStep'')"
  shows "onmessage c (Json n) (deliver_all es (handleRunWorkflow sel w))
           = Inr (deliver_all es (handleRunWorkflow sel w))
       \<and> deliver (Message c (Json n)) (deliver_all es (handleRunWorkflow sel w))
           = deliver_all es (handleRunWorkflow sel w)
       \<and> sent (deliver_all (es @ [Message c (Json n)]) (handleRunWorkflow sel w)) = sent w"
proof -
  let ?w0 = "handleRunWorkflow sel w"
  let ?w1 = "deliver_all es ?w0"
  from assms(1) obtain i where sel: "sel = Some i" "i \<noteq> 0"
    by (cases sel) auto
  have w0: "lastStepResultRef ?w0 = JStr []" "sent ?w0 = sent w"
    by (simp_all add: sel)
  have last1: "lastStepResultRef ?w1 = JStr []"
    using assms(2) w0(1) by (simp add: deliver_all_keeps)
  have sent1: "sent ?w1 = sent w"
    using assms(2) w0 by (simp add: deliver_all_silent)
  have a: "onmessage c (Json n) ?w1 = Inr ?w1"
    using assms(3) last1 by (simp add: onmessage_def)
  then have b: "deliver (Message c (Json n)) ?w1 = ?w1"
    by simp
  have "sent (deliver_all (es @ [Message c (Json n)]) ?w0) = sent w"
    using b sent1 by (simp only: deliver_all_append deliver_all_Cons deliver_all_Nil)
  with a b show ?thesis by blast
qed

theorem nextStep_without_result_sends_nothing_witness:
  "onmessage 0 (Json nextStep_frame)
      (deliver_all [Opened 0, Message 0 (Json (status_frame ''connecting...''))]
         (handleRunWorkflow (Some 7) initial))
     = Inr (deliver_all [Opened 0, Message 0 (Json (status_frame ''connecting...''))]
         (handleRunWorkflow (Some 7) initial))
   \<and> sent (deliver_all ([Opened 0, Message 0 (Json (status_frame ''connecting...''))]
              @ [Message 0 (Json nextStep_frame)]) (handleRunWorkflow (Some 7) initial)) = []
   \<and> isWorkflowRunning (deliver_all ([Opened 0, Message 0 (Json (status_frame ''connecting...''))]
              @ [Message 0 (Json nextStep_frame)]) (handleRunWorkflow (Some 7) initial))"
proof -
  let ?es = "[Opened 0, Message 0 (Json (status_frame ''connecting...''))]"
  have h1: "truthy_id (Some 7)"
    by simp
  have h2: "\<forall>e\<in>set ?es. \<not> is_click e \<and> \<not> carries ''result'' e"
    by (simp add: frame_defs)
  have h3: "get_prop nextStep_frame ''type'' = Inr (JStr ''nextStep'')"
    by (simp add: frame_defs)
  have s: "sent initial = []"
    by (simp add: initial_def)
  have r: "isWorkflowRunning (deliver_all (?es @ [Message 0 (Json nextStep_frame)])
             (handleRunWorkflow (Some 7) initial))"
    by (simp add: panel_defs frame_defs)
  from nextStep_without_result_sends_nothing [OF h1 h2 h3, of 0 initial] s r show ?thesis
    by simp
qed

subsection \<open>C8: starting a run resets the session\<close>

text \<open>
  The claim as written fails when an earlier channel is still open: after an error frame
  and a restart, a result frame of the first channel arrives while the new socket is
  still connecting. When the new run's first inbound event is handled the results hold
  that frame and the last step result is its value, which the first \<^verbatim>\<open>nextStep\<close>
  of the new run then forwards.
\<close>

theorem restart_beside_open_channel_counterexample:
  "state_of (deliver_all [Click (Some 7), Opened 0,
       Message 0 (Json (error_frame ''rate limited'')), Click (Some 7),
       Message 0 (Json (result_frame (Number False ''2'') ''Write a body'' ''stale''))] initial) 1
     = Some CONNECTING
   \<and> workflowResults (deliver_all [Click (Some 7), Opened 0,
       Message 0 (Json (error_frame ''rate limited'')), Click (Some 7),
       Message 0 (Json (result_frame (Number False ''2'') ''Write a body'' ''stale''))] initial)
     = [result_frame (Number False ''2'') ''Write a body'' ''stale'']
   \<and> lastStepResultRef (deliver_all [Click (Some 7), Opened 0,
       Message 0 (Json (error_frame ''rate limited'')), Click (Some 7),
       Message 0 (Json (result_frame (Number False ''2'') ''Write a body'' ''stale''))] initial)
     = JStr ''stale''
   \<and> sent (deliver_all [Click (Some 7), Opened 0,
       Message 0 (Json (error_frame ''rate limited'')), Click (Some 7),
       Message 0 (Json (result_frame (Number False ''2'') ''Write a body'' ''stale'')),
       Opened 1, Message 1 (Json nextStep_frame)] initial)
     = [(1, stepInput (JStr ''stale''))]"
  by (simp add: panel_defs frame_defs)

text \<open>
  C8, amended: with a workflow selected, \<^verbatim>\<open>handleRunWorkflow\<close> leaves the results
  empty and the last step result absent (the empty string, which the chaining test reads
  as absent) in the task that constructs the new socket, which is still connecting; a
  click on the run button runs it whenever the running flag is clear, also after an
  earlier run of the same workflow. Results and last step result stay so over all later
  events that start no run and whose result frames are for channels already closed when
  the run started: the first result frame of the new run is appended to empty results.
\<close>

theorem run_start_resets_session:
  assumes "truthy_id sel"
    and "\<forall>e\<in>set es. \<not> is_click e \<and> (carries ''result'' e \<longrightarrow> on_closed_channel w e)"
  shows "workflowResults (handleRunWorkflow sel w) = []
       \<and> lastStepResultRef (handleRunWorkflow sel w) = JStr []
       \<and> \<not> truthy (lastStepResultRef (handleRunWorkflow sel w))
       \<and> state_of (handleRunWorkflow sel w) (length (sockets w)) = Some CONNECTING
       \<and> deliver (Click sel) w = (if isWorkflowRunning w then w else handleRunWorkflow sel w)
       \<and> workflowResults (deliver_all es (handleRunWorkflow sel w)) = []
       \<and> lastStepResultRef (deliver_all es (handleRunWorkflow sel w)) = JStr []
       \<and> (state_of (deliver_all es (handleRunWorkflow sel w)) c = Some OPEN
            \<and> get_prop d ''type'' = Inr (JStr ''result'')
          \<longrightarrow> workflowResults (deliver_all (es @ [Message c (Json d)]) (handleRunWorkflow sel w))
                = [d])"
proof -
  let ?w0 = "handleRunWorkflow sel w"
  let ?w1 = "deliver_all es ?w0"
  from assms(1) obtain i where sel: "sel = Some i" "i \<noteq> 0"
    by (cases sel) auto
  have start: "workflowResults ?w0 = []" "lastStepResultRef ?w0 = JStr []"
    "state_of ?w0 (length (sockets w)) = Some CONNECTING"
    "deliver (Click sel) w = (if isWorkflowRunning w then w else ?w0)"
    by (simp_all add: sel state_of_def disabled_def)
  have "\<forall>e\<in>set es. \<not> is_click e \<and> (carries ''result'' e \<longrightarrow> on_closed_channel ?w0 e)"
    using assms(2) by (auto intro: handleRunWorkflow_keeps_closed)
  from deliver_all_keeps_unless_delivered [OF this] start(1,2)
  have later: "workflowResults ?w1 = []" "lastStepResultRef ?w1 = JStr []"
    by simp_all
  have first: "workflowResults (deliver_all (es @ [Message c (Json d)]) ?w0) = [d]"
    if "state_of ?w1 c = Some OPEN" "get_prop d ''type'' = Inr (JStr ''result'')"
  proof -
    from onmessage_result [OF that(2), of c ?w1] that(1) later(1)
    have "workflowResults (deliver (Message c (Json d)) ?w1) = [d]"
      by auto
    then show ?thesis
      by (simp only: deliver_all_append deliver_all_Cons deliver_all_Nil)
  qed
  from start later first show ?thesis
    by (simp only: truthy.simps simp_thms) blast
qed

theorem run_start_resets_session_witness:
  "workflowResults (deliver_all [Click (Some 7), Opened 0,
       Message 0 (Json (result_frame (Number False ''1'') ''Write a title'' ''My Title'')),
       Closed 0] initial)
     = [result_frame (Number False ''1'') ''Write a title'' ''My Title'']
   \<and> lastStepResultRef (deliver_all [Click (Some 7), Opened 0,
       Message 0 (Json (result_frame (Number False ''1'') ''Write a title'' ''My Title'')),
       Closed 0] initial) = JStr ''My Title''
   \<and> workflowResults (deliver_all
        [Opened 1,
         Message 0 (Json (result_frame (Number False ''2'') ''Write a body'' ''late'')),
         Message 1 (Json (status_frame ''connecting...''))]
        (deliver (Click (Some 7)) (deliver_all [Click (Some 7), Opened 0,
           Message 0 (Json (result_frame (Number False ''1'') ''Write a title'' ''My Title'')),
           Closed 0] initial))) = []
   \<and> lastStepResultRef (deliver_all
        [Opened 1,
         Message 0 (Json (result_frame (Number False ''2'') ''Write a body'' ''late'')),
         Message 1 (Json (status_frame ''connecting...''))]
        (deliver (Click (Some 7)) (deliver_all [Click (Some 7), Opened 0,
           Message 0 (Json (result_frame (Number False ''1'') ''Write a title'' ''My Title'')),
           Closed 0] initial))) = JStr []
   \<and> workflowResults (deliver_all
        ([Opened 1,
          Message 0 (Json (result_frame (Number False ''2'') ''Write a body'' ''late'')),
          Message 1 (Json (status_frame ''connecting...''))]
         @ [Message 1 (Json (result_frame (Number False ''1'') ''Write a title'' ''Second Title''))])
        (deliver (Click (Some 7)) (deliver_all [Click (Some 7), Opened 0,
           Message 0 (Json (result_frame (Number False ''1'') ''Write a title'' ''My Title'')),
           Closed 0] initial)))
     = [result_frame (Number False ''1'') ''Write a title'' ''Second Title'']"
proof -
  let ?w = "deliver_all [Click (Some 7), Opened 0,
       Message 0 (Json (result_frame (Number False ''1'') ''Write a title'' ''My Title'')),
       Closed 0] initial"
  let ?es = "[Opened 1,
         Message 0 (Json (result_frame (Number False ''2'') ''Write a body'' ''late'')),
         Message 1 (Json (status_frame ''connecting...''))]"
  let ?d = "result_frame (Number False ''1'') ''Write a title'' ''Second Title''"
  have h1: "truthy_id (Some 7)"
    by simp
  have h2: "\<forall>e\<in>set ?es. \<not> is_click e \<and> (carries ''result'' e \<longrightarrow> on_closed_channel ?w e)"
    by (simp add: panel_defs frame_defs)
  have idle: "\<not> isWorkflowRunning ?w"
    by (simp add: panel_defs frame_defs)
  have before: "workflowResults ?w = [result_frame (Number False ''1'') ''Write a title'' ''My Title'']"
    "lastStepResultRef ?w = JStr ''My Title''"
    by (simp_all add: panel_defs frame_defs)
  have h3: "state_of (deliver_all ?es (handleRunWorkflow (Some 7) ?w)) 1 = Some OPEN
            \<and> get_prop ?d ''type'' = Inr (JStr ''result'')"
    by (simp add: panel_defs frame_defs)
  note inst = run_start_resets_session [OF h1 h2, of 1 ?d]
  from inst idle have click: "deliver (Click (Some 7)) ?w = handleRunWorkflow (Some 7) ?w"
    by (simp only: if_False)
  from inst h3 have
    "workflowResults (deliver_all ?es (handleRunWorkflow (Some 7) ?w)) = []"
    "lastStepResultRef (deliver_all ?es (handleRunWorkflow (Some 7) ?w)) = JStr []"
    "workflowResults (deliver_all (?es @ [Message 1 (Json ?d)]) (handleRunWorkflow (Some 7) ?w)) = [?d]"
    by blast+
  with before show ?thesis
    unfolding click by blast
qed

subsection \<open>C9: frames of an unknown type\<close>

text \<open>
  C9: for every frame that parses as a JSON object whose \<^verbatim>\<open>type\<close> is none of
  \<^verbatim>\<open>status\<close>, \<^verbatim>\<open>result\<close>, \<^verbatim>\<open>nextStep\<close>, \<^verbatim>\<open>error\<close> (a
  missing \<^verbatim>\<open>type\<close> included), the handler returns normally and the whole state is
  unchanged: status, results, last step result, running flag, and the commands sent.
\<close>

theorem unknown_type_is_ignored:
  assumes "get_prop (JObj kvs) ''type'' = Inr ty"
    and "ty \<noteq> JStr ''status''" and "ty \<noteq> JStr ''result''"
    and "ty \<noteq> JStr ''nextStep''" and "ty \<noteq> JStr ''error''"
  shows "onmessage c (Json (JObj kvs)) w = Inr w \<and> deliver (Message c (Json (JObj kvs))) w = w"
  using assms by (simp add: onmessage_def)

theorem unknown_type_is_ignored_witness:
  "onmessage 0 (Json (JObj [(''type'', JStr ''heartbeat''), (''message'', JStr ''x'')]))
      (deliver_all [Click (Some 7), Opened 0] initial)
     = Inr (deliver_all [Click (Some 7), Opened 0] initial)
   \<and> deliver (Message 0 (Json (JObj [(''type'', JStr ''heartbeat''), (''message'', JStr ''x'')])))
      (deliver_all [Click (Some 7), Opened 0] initial)
     = deliver_all [Click (Some 7), Opened 0] initial
   \<and> state_of (deliver_all [Click (Some 7), Opened 0] initial) 0 = Some OPEN"
proof -
  let ?kvs = "[(''type'', JStr ''heartbeat''), (''message'', JStr ''x'')]"
  have h1: "get_prop (JObj ?kvs) ''type'' = Inr (JStr ''heartbeat'')"
    by simp
  have h2: "JStr ''heartbeat'' \<noteq> JStr ''status''" "JStr ''heartbeat'' \<noteq> JStr ''result''"
    "JStr ''heartbeat'' \<noteq> JStr ''nextStep''" "JStr ''heartbeat'' \<noteq> JStr ''error''"
    by simp_all
  have st: "state_of (deliver_all [Click (Some 7), Opened 0] initial) 0 = Some OPEN"
    by (simp add: panel_defs)
  from unknown_type_is_ignored [OF h1 h2, of 0 "deliver_all [Click (Some 7), Opened 0] initial"] st
  show ?thesis by blast
qed

subsection \<open>C10: an empty result is not forwarded\<close>

text \<open>
  C10: when the most recent result frame carried the empty string as its result value,
  a following \<^verbatim>\<open>nextStep\<close> frame (with any events in between that neither start a
  run nor carry a result) produces no outbound command: the empty string is read as an
  absent last step result.
\<close>

theorem empty_result_is_not_forwarded:
  assumes "state_of w c = Some OPEN"
    and "get_prop d ''type'' = Inr (JStr ''result'')"
    and "get_prop d ''result'' = Inr (JStr [])"
    and "\<forall>e\<in>set es. \<not> is_click e \<and> \<not> carries ''result'' e"
    and "get_prop n ''type'' = Inr (JStr ''nextStep'')"
  shows "sent (deliver_all (Message c (Json d) # es @ [Message c' (Json n)]) w) = sent w
       \<and> \<not> truthy (lastStepResultRef (deliver_all (Message c (Json d) # es) w))"
proof -
  let ?w1 = "deliver (Message c (Json d)) w"
  let ?w2 = "deliver_all es ?w1"
  have w1: "lastStepResultRef ?w1 = JStr []" "sent ?w1 = sent w"
    using assms(1-3) by (simp_all add: onmessage_def)
  have last2: "lastStepResultRef ?w2 = JStr []"
    using assms(4) w1(1) by (simp add: deliver_all_keeps)
  have sent2: "sent ?w2 = sent w"
    using assms(4) w1 by (simp add: deliver_all_silent)
  have "sent (deliver (Message c' (Json n)) ?w2) = sent ?w2"
    using last2 by (simp add: deliver_silent del: deliver.simps)
  with sent2 last2 show ?thesis
    by (simp only: deliver_all_Cons deliver_all_append deliver_all_Nil truthy.simps) simp
qed

theorem empty_result_is_not_forwarded_witness:
  "sent (deliver_all
     (Message 0 (Json (result_frame (Number False ''1'') ''Write a title'' ''''))
       # [Message 0 (Json (status_frame ''working''))] @ [Message 0 (Json nextStep_frame)])
     (deliver_all [Click (Some 7), Opened 0] initial)) = []
   \<and> \<not> truthy (lastStepResultRef (deliver_all
     (Message 0 (Json (result_frame (Number False ''1'') ''Write a title'' ''''))
       # [Message 0 (Json (status_frame ''working''))])
     (deliver_all [Click (Some 7), Opened 0] initial)))"
proof -
  let ?w = "deliver_all [Click (Some 7), Opened 0] initial"
  let ?d = "result_frame (Number False ''1'') ''Write a title'' ''''"
  let ?es = "[Message 0 (Json (status_frame ''working''))]"
  have h1: "state_of ?w 0 = Some OPEN"
    by (simp add: panel_defs)
  have h2: "get_prop ?d ''type'' = Inr (JStr ''result'')"
    by (simp add: frame_defs)
  have h3: "get_prop ?d ''result'' = Inr (JStr [])"
    by (simp add: frame_defs)
  have h4: "\<forall>e\<in>set ?es. \<not> is_click e \<and> \<not> carries ''result'' e"
    by (simp add: frame_defs)
  have h5: "get_prop nextStep_frame ''type'' = Inr (JStr ''nextStep'')"
    by (simp add: frame_defs)
  have s: "sent ?w = []"
    by (simp add: panel_defs)
  from empty_result_is_not_forwarded [OF h1 h2 h3 h4 h5, of 0] s show ?thesis
    by simp
qed

end
